theory Spec2Isabelle
  imports Main
begin

section \<open>The HTTP server of cog: \<^verbatim>\<open>python/cog/server/http.py\<close>\<close>

text \<open>
  The module wraps one model in a Flask application with four routes. The views are
  closures of \<^verbatim>\<open>HTTPServer.make_app\<close>; they are modelled as functions of a record
  holding what the closure captures (the model and the functions imported from
  \<^verbatim>\<open>cog.input\<close> and \<^verbatim>\<open>cog.model\<close>) and of the request. Calls that leave the module are
  written to a log of events, so that "is not invoked" and "runs once, in order" are
  statements about that log.
\<close>

subsection \<open>Python values\<close>

text \<open>
  The values a schema declares (defaults, bounds, options) and the timing scalars are
  atoms: \<^verbatim>\<open>None\<close>, \<^verbatim>\<open>bool\<close>, \<^verbatim>\<open>int\<close>, \<^verbatim>\<open>float\<close>, \<^verbatim>\<open>str\<close> and \<^verbatim>\<open>pathlib.Path\<close>.
  No float arithmetic happens in this module: a float is only passed on and rendered
  by \<^verbatim>\<open>str\<close>, so it is represented by that rendering (its \<^verbatim>\<open>repr\<close>). A path is
  represented by the string \<^verbatim>\<open>str(path)\<close>.
\<close>

datatype atom =
    ANone
  | ABool bool
  | AInt int
  | AFloat string
  | AStr string
  | APath string

text \<open>An uploaded file, werkzeug's \<^verbatim>\<open>FileStorage\<close>: its file name and its content.\<close>

datatype file_storage = FileStorage (filename: string) (content: string)

text \<open>
  Values in general: the raw and converted inputs and the result of a prediction. A
  Python \<^verbatim>\<open>dict\<close> keeps insertion order and is a list of pairs with distinct keys.
\<close>

datatype pyval =
    Atom atom
  | PFile file_storage
  | PList "pyval list"
  | PDict "(string \<times> pyval) list"

type_synonym pydict = "(string \<times> pyval) list"

text \<open>\<^verbatim>\<open>key in d\<close> and \<^verbatim>\<open>d[key] = val\<close> on a \<^verbatim>\<open>dict\<close>: assignment to a key that is
  present replaces its value in place, a new key goes to the end.\<close>

definition dict_mem :: "'k \<Rightarrow> ('k \<times> 'v) list \<Rightarrow> bool" where
  "dict_mem k d = (k \<in> fst ` set d)"

fun dict_set :: "('k \<times> 'v) list \<Rightarrow> 'k \<Rightarrow> 'v \<Rightarrow> ('k \<times> 'v) list" where
  "dict_set [] k v = [(k, v)]"
| "dict_set ((k', v') # d) k v =
     (if k' = k then (k, v) # d else (k', v') # dict_set d k v)"

text \<open>\<^verbatim>\<open>str\<close> on an \<^verbatim>\<open>int\<close>: decimal digits, with a minus sign.\<close>

definition digit_char :: "nat \<Rightarrow> char" where
  "digit_char n = char_of (48 + n)"

fun string_of_nat :: "nat \<Rightarrow> string" where
  "string_of_nat n =
     (if n < 10 then [digit_char n] else string_of_nat (n div 10) @ [digit_char (n mod 10)])"

declare string_of_nat.simps [simp del]

definition string_of_int :: "int \<Rightarrow> string" where
  "string_of_int i =
     (if i < 0 then CHR ''-'' # string_of_nat (nat (- i)) else string_of_nat (nat i))"

text \<open>\<^verbatim>\<open>str(v)\<close> for an atom.\<close>

fun py_str :: "atom \<Rightarrow> string" where
  "py_str ANone = ''None''"
| "py_str (ABool b) = (if b then ''True'' else ''False'')"
| "py_str (AInt i) = string_of_int i"
| "py_str (AFloat r) = r"
| "py_str (AStr s) = s"
| "py_str (APath p) = p"

subsection \<open>Exceptions and outcomes\<close>

text \<open>
  An exception is an instance of Python's \<^verbatim>\<open>Exception\<close> class, the class the
  \<^verbatim>\<open>except\<close> clause of the cleanup loop names; the handler tells
  \<^verbatim>\<open>InputValidationError\<close> from every other exception. Each carries the text
  \<^verbatim>\<open>str(e)\<close>.
\<close>

datatype py_exception =
    InputValidationError string
  | OtherException string

fun exc_str :: "py_exception \<Rightarrow> string" where
  "exc_str (InputValidationError m) = m"
| "exc_str (OtherException m) = m"

subsection \<open>Flask responses\<close>

datatype body =
    FileBody string
  | TextBody string
  | JsonBody pyval

text \<open>
  A response: the status code, the content type, the body, and the header entries set
  on top of the ones Flask derives from content type and body.
\<close>

record response =
  status_code :: nat
  mimetype :: string
  body :: body
  headers :: "(string \<times> string) list"

text \<open>Header names are compared without regard to case (werkzeug's \<^verbatim>\<open>Headers\<close>).\<close>

definition lower_char :: "char \<Rightarrow> char" where
  "lower_char c =
     (let n = of_char c :: nat in if 65 \<le> n \<and> n \<le> 90 then char_of (n + 32) else c)"

definition lower :: "string \<Rightarrow> string" where
  "lower s = map lower_char s"

text \<open>\<^verbatim>\<open>headers[key] = value\<close>: entries of that name are dropped, the new one is added;
  the value is turned into text with \<^verbatim>\<open>str\<close>.\<close>

definition headers_set :: "(string \<times> string) list \<Rightarrow> string \<Rightarrow> atom \<Rightarrow> (string \<times> string) list" where
  "headers_set hs key v =
     filter (\<lambda>(k, _). lower k \<noteq> lower key) hs @ [(key, py_str v)]"

definition headers_get :: "(string \<times> string) list \<Rightarrow> string \<Rightarrow> string option" where
  "headers_get hs key =
     (case filter (\<lambda>(k, _). lower k = lower key) hs of
        [] \<Rightarrow> None
      | (_, v) # _ \<Rightarrow> Some v)"

text \<open>
  \<^verbatim>\<open>jsonify\<close> serialises its argument. A path or an uploaded file anywhere in the
  value is not serialisable, and the encoder raises \<^verbatim>\<open>TypeError\<close>.
\<close>

fun json_serializable :: "pyval \<Rightarrow> bool" where
  "json_serializable (Atom a) = (case a of APath _ \<Rightarrow> False | _ \<Rightarrow> True)"
| "json_serializable (PFile _) = False"
| "json_serializable (PList vs) = list_all json_serializable vs"
| "json_serializable (PDict kvs) = list_all (\<lambda>kv. json_serializable (snd kv)) kvs"

definition jsonify :: "pyval \<Rightarrow> py_exception + response" where
  "jsonify v =
     (if json_serializable v
      then Inr \<lparr>status_code = 200, mimetype = ''application/json'', body = JsonBody v,
                headers = []\<rparr>
      else Inl (OtherException ''TypeError''))"

text \<open>\<^verbatim>\<open>Response(text, mimetype=m)\<close>.\<close>

definition Response :: "string \<Rightarrow> string \<Rightarrow> response" where
  "Response text m = \<lparr>status_code = 200, mimetype = m, body = TextBody text, headers = []\<rparr>"

subsection \<open>The model and what the views capture\<close>

text \<open>A Python type object, by its name.\<close>

datatype py_type = PyType string

text \<open>The sentinel \<^verbatim>\<open>UNSPECIFIED\<close> is distinct from every value, \<^verbatim>\<open>None\<close> included.\<close>

datatype default_value = UNSPECIFIED | Default atom

text \<open>
  One entry of \<^verbatim>\<open>predict._inputs\<close>. \<^verbatim>\<open>help\<close> is \<^verbatim>\<open>None\<close> or a \<^verbatim>\<open>str\<close>; \<^verbatim>\<open>min\<close> and
  \<^verbatim>\<open>max\<close> are \<^verbatim>\<open>None\<close> (\<open>ANone\<close>) or a number; \<^verbatim>\<open>options\<close> is \<^verbatim>\<open>None\<close> or a list.
\<close>

record input_spec =
  spec_type :: py_type
  spec_help :: "string option"
  spec_default :: default_value
  spec_min :: atom
  spec_max :: atom
  spec_options :: "atom list option"

text \<open>A cleanup function: a callable without arguments that returns (\<open>None\<close>) or
  raises when it is called. The number tells two callables apart.\<close>

datatype cleanup_function = CleanupFunction (cleanup_id: nat) (cleanup_call: "py_exception option")

text \<open>What leaves the module during a request.\<close>

datatype event =
    ValidateCalled pydict
  | RunModelCalled pydict
  | CleanupCalled cleanup_function
  | StderrWrite string

text \<open>
  The environment of the views. \<open>predict_inputs\<close> is \<^verbatim>\<open>self.model.predict._inputs\<close>,
  \<open>None\<close> when \<^verbatim>\<open>predict\<close> has no such attribute. \<open>validate_and_convert_inputs\<close> and
  \<open>run_model\<close> are the imported functions, applied to \<^verbatim>\<open>self.model\<close>: they take the
  inputs and the list \<^verbatim>\<open>cleanup_functions\<close>, which they may extend, and return or
  raise. \<open>get_type_name\<close> is the imported naming of types. \<open>disk\<close> gives the content of
  the files \<^verbatim>\<open>send_file\<close> can read, \<open>guess_type\<close> is the content type it derives from a
  file name. \<open>setup_time\<close> is measured once in \<^verbatim>\<open>make_app\<close>.
\<close>

record server =
  predict_inputs :: "(string \<times> input_spec) list option"
  validate_and_convert_inputs ::
    "pydict \<Rightarrow> cleanup_function list \<Rightarrow> (py_exception + pydict) \<times> cleanup_function list"
  run_model ::
    "pydict \<Rightarrow> cleanup_function list \<Rightarrow> (py_exception + pyval) \<times> cleanup_function list"
  get_type_name :: "py_type \<Rightarrow> string"
  disk :: "string \<Rightarrow> string option"
  guess_type :: "string \<Rightarrow> string option"
  setup_time :: atom

text \<open>
  \<^verbatim>\<open>send_file(filename)\<close>: the content of the file with the content type guessed from
  the name (\<^verbatim>\<open>application/octet-stream\<close> when there is no guess); it raises when the
  file cannot be read.
\<close>

definition send_file :: "server \<Rightarrow> string \<Rightarrow> py_exception + response" where
  "send_file srv name =
     (case disk srv name of
        None \<Rightarrow> Inl (OtherException ''FileNotFoundError'')
      | Some bytes \<Rightarrow>
          Inr \<lparr>status_code = 200,
               mimetype = (case guess_type srv name of
                             None \<Rightarrow> ''application/octet-stream'' | Some m \<Rightarrow> m),
               body = FileBody bytes, headers = []\<rparr>)"

text \<open>
  A request: \<^verbatim>\<open>request.form\<close> and \<^verbatim>\<open>request.files\<close> are multi-dicts, here the list of
  their (key, value) pairs in the order received, a key possibly several times.
\<close>

record request =
  form :: "(string \<times> string) list"
  files :: "(string \<times> file_storage) list"

text \<open>\<^verbatim>\<open>MultiDict.items()\<close>: every key once, in order of first appearance, with its
  first value.\<close>

fun items :: "('k \<times> 'v) list \<Rightarrow> ('k \<times> 'v) list" where
  "items [] = []"
| "items ((k, v) # rest) = (k, v) # filter (\<lambda>(k', _). k' \<noteq> k) (items rest)"

text \<open>How a view ends: it returns a response, or an exception leaves it.\<close>

datatype outcome = Returns response | Raises py_exception

subsection \<open>\<^verbatim>\<open>_abort400\<close> and \<^verbatim>\<open>create_response\<close>\<close>

definition abort400 :: "string \<Rightarrow> py_exception + response" where
  "abort400 message =
     (case jsonify (PDict [(''message'', Atom (AStr message))]) of
        Inl e \<Rightarrow> Inl e
      | Inr resp \<Rightarrow> Inr (resp\<lparr>status_code := 400\<rparr>))"

text \<open>The two assignments to \<^verbatim>\<open>resp.headers\<close> that end \<^verbatim>\<open>create_response\<close>.\<close>

definition set_time_headers :: "response \<Rightarrow> atom \<Rightarrow> atom \<Rightarrow> response" where
  "set_time_headers resp setup_t run_t =
     (let resp = resp\<lparr>headers := headers_set (headers resp) ''X-Setup-Time'' setup_t\<rparr>;
          resp = resp\<lparr>headers := headers_set (headers resp) ''X-Run-Time'' run_t\<rparr>
      in resp)"

text \<open>
  \<^verbatim>\<open>isinstance(result, Path)\<close> holds of \<open>Atom (APath p)\<close> only and
  \<^verbatim>\<open>isinstance(result, str)\<close> of \<open>Atom (AStr s)\<close> only. An exception of
  \<^verbatim>\<open>send_file\<close> or \<^verbatim>\<open>jsonify\<close> leaves the function before the headers are set.
\<close>

definition create_response :: "server \<Rightarrow> pyval \<Rightarrow> atom \<Rightarrow> atom \<Rightarrow> py_exception + response" where
  "create_response srv result setup_t run_t =
     (case (case result of
              Atom (APath p) \<Rightarrow> send_file srv p
            | Atom (AStr s) \<Rightarrow> Inr (Response s ''text/plain'')
            | _ \<Rightarrow> jsonify result) of
        Inl e \<Rightarrow> Inl e
      | Inr resp \<Rightarrow> Inr (set_time_headers resp setup_t run_t))"

subsection \<open>\<^verbatim>\<open>handle_request\<close>\<close>

text \<open>The first loop: every form field is stored in \<^verbatim>\<open>raw_inputs\<close>.\<close>

fun collect_form :: "(string \<times> string) list \<Rightarrow> pydict \<Rightarrow> pydict" where
  "collect_form [] raw_inputs = raw_inputs"
| "collect_form ((key, val) # rest) raw_inputs =
     collect_form rest (dict_set raw_inputs key (Atom (AStr val)))"

text \<open>The second loop: at the first file key that is already in \<^verbatim>\<open>raw_inputs\<close> the
  handler returns (\<open>Inl\<close> that key); otherwise the file is stored.\<close>

fun collect_files :: "(string \<times> file_storage) list \<Rightarrow> pydict \<Rightarrow> string + pydict" where
  "collect_files [] raw_inputs = Inr raw_inputs"
| "collect_files ((key, val) # rest) raw_inputs =
     (if dict_mem key raw_inputs then Inl key
      else collect_files rest (dict_set raw_inputs key (PFile val)))"

text \<open>Both loops, from the empty \<^verbatim>\<open>raw_inputs\<close>.\<close>

definition collect_inputs :: "request \<Rightarrow> string + pydict" where
  "collect_inputs req = collect_files (items (files req)) (collect_form (items (form req)) [])"

definition return_or_raise :: "py_exception + response \<Rightarrow> outcome" where
  "return_or_raise r = (case r of Inl e \<Rightarrow> Raises e | Inr resp \<Rightarrow> Returns resp)"

text \<open>
  \<^verbatim>\<open>run_model\<close>, the measurement of the run time and \<^verbatim>\<open>create_response\<close>. \<open>run_t\<close> is
  the value of \<^verbatim>\<open>time.time() - start_time\<close> after the model has returned. The result
  is the outcome, the list \<^verbatim>\<open>cleanup_functions\<close> and the events.
\<close>

definition invoke ::
  "server \<Rightarrow> atom \<Rightarrow> pydict \<Rightarrow> cleanup_function list \<Rightarrow> outcome \<times> cleanup_function list \<times> event list" where
  "invoke srv run_t inputs cleanup_functions =
     (case run_model srv inputs cleanup_functions of
        (Inl e, cleanup_functions') \<Rightarrow> (Raises e, cleanup_functions', [RunModelCalled inputs])
      | (Inr result, cleanup_functions') \<Rightarrow>
          (return_or_raise (create_response srv result (setup_time srv) run_t),
           cleanup_functions', [RunModelCalled inputs]))"

text \<open>The body of the \<^verbatim>\<open>try\<close> statement, with \<^verbatim>\<open>cleanup_functions\<close> empty at its
  start.\<close>

definition try_body ::
  "server \<Rightarrow> atom \<Rightarrow> request \<Rightarrow> outcome \<times> cleanup_function list \<times> event list" where
  "try_body srv run_t req =
     (case collect_inputs req of
        Inl key \<Rightarrow>
          (return_or_raise (abort400 (''Duplicated argument name in form and files: '' @ key)),
           [], [])
      | Inr raw_inputs \<Rightarrow>
          (case predict_inputs srv of
             Some _ \<Rightarrow>
               (case validate_and_convert_inputs srv raw_inputs [] of
                  (Inl (InputValidationError m), cleanup_functions) \<Rightarrow>
                    (return_or_raise (abort400 (exc_str (InputValidationError m))),
                     cleanup_functions, [ValidateCalled raw_inputs])
                | (Inl (OtherException m), cleanup_functions) \<Rightarrow>
                    (Raises (OtherException m), cleanup_functions, [ValidateCalled raw_inputs])
                | (Inr inputs, cleanup_functions) \<Rightarrow>
                    (case invoke srv run_t inputs cleanup_functions of
                       (out, cleanup_functions', evs) \<Rightarrow>
                         (out, cleanup_functions', ValidateCalled raw_inputs # evs)))
           | None \<Rightarrow> invoke srv run_t raw_inputs []))"

text \<open>The \<^verbatim>\<open>finally\<close> clause: each cleanup function is called; an exception is
  written to \<^verbatim>\<open>sys.stderr\<close> and the loop goes on.\<close>

fun run_cleanups :: "cleanup_function list \<Rightarrow> event list" where
  "run_cleanups [] = []"
| "run_cleanups (cleanup_function # rest) =
     (case cleanup_call cleanup_function of
        None \<Rightarrow> [CleanupCalled cleanup_function]
      | Some e \<Rightarrow>
          [CleanupCalled cleanup_function,
           StderrWrite (''Cleanup function caught error: '' @ exc_str e)])
     @ run_cleanups rest"

text \<open>The view: the outcome of the \<^verbatim>\<open>try\<close> body stands, the \<^verbatim>\<open>finally\<close> clause
  adds its events.\<close>

definition handle_request :: "server \<Rightarrow> atom \<Rightarrow> request \<Rightarrow> outcome \<times> event list" where
  "handle_request srv run_t req =
     (case try_body srv run_t req of
        (out, cleanup_functions, evs) \<Rightarrow> (out, evs @ run_cleanups cleanup_functions))"

subsection \<open>\<^verbatim>\<open>ping\<close> and \<^verbatim>\<open>help\<close>\<close>

text \<open>A view that returns a \<^verbatim>\<open>str\<close>: Flask answers with it as \<^verbatim>\<open>text/html\<close>.\<close>

definition ping :: "outcome \<times> event list" where
  "ping = (Returns (Response ''PONG'' ''text/html''), [])"

text \<open>The body of the loop over \<^verbatim>\<open>input_specs.items()\<close>: the dictionary \<^verbatim>\<open>arg\<close> of
  one field.\<close>

definition help_arg :: "server \<Rightarrow> input_spec \<Rightarrow> pydict" where
  "help_arg srv spec =
     (let arg = [(''type'', Atom (AStr (get_type_name srv (spec_type spec))))];
          arg = (case spec_help spec of
                   None \<Rightarrow> arg
                 | Some h \<Rightarrow> if h \<noteq> [] then dict_set arg ''help'' (Atom (AStr h)) else arg);
          arg = (case spec_default spec of
                   UNSPECIFIED \<Rightarrow> arg
                 | Default d \<Rightarrow> dict_set arg ''default'' (Atom (AStr (py_str d))));
          arg = (if spec_min spec \<noteq> ANone
                 then dict_set arg ''min'' (Atom (AStr (py_str (spec_min spec)))) else arg);
          arg = (if spec_max spec \<noteq> ANone
                 then dict_set arg ''max'' (Atom (AStr (py_str (spec_max spec)))) else arg);
          arg = (case spec_options spec of
                   None \<Rightarrow> arg
                 | Some opts \<Rightarrow>
                     dict_set arg ''options'' (PList (map (\<lambda>opt. Atom (AStr (py_str opt))) opts)))
      in arg)"

fun help_args :: "server \<Rightarrow> (string \<times> input_spec) list \<Rightarrow> pydict \<Rightarrow> pydict" where
  "help_args srv [] args = args"
| "help_args srv ((name, spec) # rest) args =
     help_args srv rest (dict_set args name (PDict (help_arg srv spec)))"

definition help_view :: "server \<Rightarrow> outcome \<times> event list" where
  "help_view srv =
     (let args = (case predict_inputs srv of
                    None \<Rightarrow> []
                  | Some input_specs \<Rightarrow> help_args srv input_specs [])
      in (return_or_raise (jsonify (PDict [(''arguments'', PDict args)])), []))"

subsection \<open>The routes\<close>

datatype http_method = GET | HEAD | POST | PUT | DELETE

datatype view = HandleRequest | Ping | Help

text \<open>The URL map built by the \<^verbatim>\<open>app.route\<close> decorators: a route without
  \<^verbatim>\<open>methods\<close> answers \<^verbatim>\<open>GET\<close> (and \<^verbatim>\<open>HEAD\<close>).\<close>

definition url_map :: "http_method \<Rightarrow> string \<Rightarrow> view option" where
  "url_map m path =
     (if path = ''/predict'' \<and> m = POST then Some HandleRequest
      else if path = ''/infer'' \<and> m = POST then Some HandleRequest
      else if path = ''/ping'' \<and> (m = GET \<or> m = HEAD) then Some Ping
      else if path = ''/help'' \<and> (m = GET \<or> m = HEAD) then Some Help
      else None)"

text \<open>The application: \<open>None\<close> when no view serves the request.\<close>

definition app ::
  "server \<Rightarrow> atom \<Rightarrow> http_method \<Rightarrow> string \<Rightarrow> request \<Rightarrow> (outcome \<times> event list) option" where
  "app srv run_t m path req =
     (case url_map m path of
        None \<Rightarrow> None
      | Some HandleRequest \<Rightarrow> Some (handle_request srv run_t req)
      | Some Ping \<Rightarrow> Some ping
      | Some Help \<Rightarrow> Some (help_view srv))"

subsection \<open>Reading the log\<close>



fun run_model_calls :: "event list \<Rightarrow> pydict list" where
  "run_model_calls [] = []"
| "run_model_calls (RunModelCalled inputs # evs) = inputs # run_model_calls evs"
| "run_model_calls (_ # evs) = run_model_calls evs"

subsection \<open>A model to run the views on\<close>

text \<open>
  A schema with two fields, \<^verbatim>\<open>text\<close> with the empty string as its default and
  \<^verbatim>\<open>count\<close> without a default, and a field whose help text is the empty string.
\<close>

definition text_spec :: input_spec where
  "text_spec = \<lparr>spec_type = PyType ''str'', spec_help = Some ''Text to echo'',
     spec_default = Default (AStr ''''), spec_min = ANone, spec_max = ANone,
     spec_options = None\<rparr>"

definition count_spec :: input_spec where
  "count_spec = \<lparr>spec_type = PyType ''int'', spec_help = None,
     spec_default = UNSPECIFIED, spec_min = AInt 0, spec_max = AInt 10,
     spec_options = Some [AInt 0, AInt 5, AInt 10]\<rparr>"


text \<open>Three cleanup functions, the second of which raises.\<close>

definition demo_cleanups :: "cleanup_function list" where
  "demo_cleanups =
     [CleanupFunction 1 None,
      CleanupFunction 2 (Some (OtherException ''disk full'')),
      CleanupFunction 3 None]"

text \<open>A conversion that registers the three cleanup functions and asks for
  \<^verbatim>\<open>count\<close>; a model that answers with a string that is also the name of a file.\<close>

definition demo_validate ::
  "pydict \<Rightarrow> cleanup_function list \<Rightarrow> (py_exception + pydict) \<times> cleanup_function list" where
  "demo_validate raw_inputs cleanup_functions =
     (if dict_mem ''count'' raw_inputs
      then (Inr raw_inputs, cleanup_functions @ demo_cleanups)
      else (Inl (InputValidationError ''Missing required argument: count''),
            cleanup_functions @ demo_cleanups))"

definition demo_run_model ::
  "pydict \<Rightarrow> cleanup_function list \<Rightarrow> (py_exception + pyval) \<times> cleanup_function list" where
  "demo_run_model inputs cleanup_functions = (Inr (Atom (AStr ''out.txt'')), cleanup_functions)"

definition demo_type_name :: "py_type \<Rightarrow> string" where
  "demo_type_name t = (case t of PyType n \<Rightarrow> n)"

definition demo_disk :: "string \<Rightarrow> string option" where
  "demo_disk name =
     (if name = ''out.txt'' then Some ''hello'' else if name = ''out.png'' then Some ''PNG''
      else None)"

definition demo_guess_type :: "string \<Rightarrow> string option" where
  "demo_guess_type name = (if name = ''out.png'' then Some ''image/png'' else None)"

definition demo_server :: server where
  "demo_server = \<lparr>predict_inputs = Some [(''text'', text_spec), (''count'', count_spec)],
     validate_and_convert_inputs = demo_validate, run_model = demo_run_model,
     get_type_name = demo_type_name, disk = demo_disk, guess_type = demo_guess_type,
     setup_time = AFloat ''1.5''\<rparr>"


definition plain_server :: server where
  "plain_server = demo_server\<lparr>predict_inputs := None\<rparr>"

text \<open>Requests: \<^verbatim>\<open>image\<close> both as a field and as a file; a request without
  \<^verbatim>\<open>count\<close>; a request the conversion accepts.\<close>

definition dup_request :: request where
  "dup_request = \<lparr>form = [(''text'', ''a''), (''image'', ''b'')],
     files = [(''image'', FileStorage ''cat.png'' ''PNG'')]\<rparr>"

definition text_request :: request where
  "text_request = \<lparr>form = [(''text'', ''a'')], files = []\<rparr>"

definition count_request :: request where
  "count_request = \<lparr>form = [(''count'', ''5'')], files = []\<rparr>"

section \<open>Properties\<close>

subsection \<open>Dictionaries and multi-dicts\<close>

lemma keys_dict_set: "fst ` set (dict_set d k v) = insert k (fst ` set d)"
  by (induction d k v rule: dict_set.induct) (simp_all add: insert_commute)

lemma dict_set_fresh: "k \<notin> fst ` set d \<Longrightarrow> dict_set d k v = d @ [(k, v)]"
  by (induction d k v rule: dict_set.induct) auto

lemma keys_items: "fst ` set (items xs) = fst ` set xs"
proof (induction xs)
  case Nil
  show ?case by simp
next
  case (Cons kv xs)
  obtain k v where kv: "kv = (k, v)" by (cases kv)
  have "fst ` set (filter (\<lambda>(k', _). k' \<noteq> k) (items xs)) = fst ` set (items xs) - {k}"
    by force
  with Cons kv show ?case by auto
qed

lemma distinct_items: "distinct (map fst (items xs))"
proof (induction xs)
  case Nil
  show ?case by simp
next
  case (Cons kv xs)
  obtain k v where kv: "kv = (k, v)" by (cases kv)
  have "k \<notin> fst ` set (filter (\<lambda>(k', _). k' \<noteq> k) (items xs))" by force
  moreover have "distinct (map fst (filter (\<lambda>(k', _). k' \<noteq> k) (items xs)))"
    using Cons by (simp add: distinct_map_filter)
  ultimately show ?case using kv by simp
qed

subsection \<open>Collecting the inputs\<close>

lemma abort400_eq:
  "abort400 m = Inr \<lparr>status_code = 400, mimetype = ''application/json'',
       body = JsonBody (PDict [(''message'', Atom (AStr m))]), headers = []\<rparr>"
  by (simp add: abort400_def jsonify_def)

lemma keys_collect_form:
  "fst ` set (collect_form xs d) = fst ` set xs \<union> fst ` set d"
  by (induction xs d rule: collect_form.induct) (auto simp: keys_dict_set)

lemma collect_files_Inl:
  "distinct (map fst fs) \<Longrightarrow> collect_files fs d = Inl k \<Longrightarrow> k \<in> fst ` set fs \<and> k \<in> fst ` set d"
proof (induction fs d rule: collect_files.induct)
  case (1 d)
  then show ?case by simp
next
  case (2 key val rest d)
  show ?case
  proof (cases "dict_mem key d")
    case True
    with 2 show ?thesis by (auto simp: dict_mem_def)
  next
    case False
    with 2 have "k \<in> fst ` set rest \<and> k \<in> fst ` set (dict_set d key (PFile val))" by simp
    moreover from 2(2) have "key \<notin> fst ` set rest" by simp
    ultimately show ?thesis by (auto simp: keys_dict_set)
  qed
qed

lemma collect_files_dup:
  "fst ` set fs \<inter> fst ` set d \<noteq> {} \<Longrightarrow> \<exists>k. collect_files fs d = Inl k"
proof (induction fs d rule: collect_files.induct)
  case (1 d)
  then show ?case by simp
next
  case (2 key val rest d)
  show ?case
  proof (cases "dict_mem key d")
    case True
    then show ?thesis by simp
  next
    case False
    with 2(2) have "fst ` set rest \<inter> fst ` set (dict_set d key (PFile val)) \<noteq> {}"
      by (auto simp: dict_mem_def keys_dict_set)
    with 2(1) False show ?thesis by simp
  qed
qed

lemma collect_inputs_dup:
  assumes "fst ` set (form req) \<inter> fst ` set (files req) \<noteq> {}"
  shows "\<exists>key \<in> fst ` set (form req) \<inter> fst ` set (files req). collect_inputs req = Inl key"
proof -
  let ?d = "collect_form (items (form req)) []"
  have keys: "fst ` set ?d = fst ` set (form req)"
    by (simp add: keys_collect_form keys_items)
  with assms have "fst ` set (items (files req)) \<inter> fst ` set ?d \<noteq> {}"
    by (auto simp: keys_items)
  then obtain k where k: "collect_files (items (files req)) ?d = Inl k"
    using collect_files_dup by blast
  with collect_files_Inl [OF distinct_items k] keys
  have "k \<in> fst ` set (form req) \<inter> fst ` set (files req)" by (simp add: keys_items)
  with k show ?thesis by (auto simp: collect_inputs_def)
qed

text \<open>
  C2. When a key is both a form field and a file, a \<^verbatim>\<open>POST\<close> to \<^verbatim>\<open>/predict\<close> returns
  status 400 with the message \<^verbatim>\<open>Duplicated argument name in form and files:\<close> followed
  by a key that is in both; the log is empty, so neither the conversion nor the model
  was called.
\<close>

theorem duplicate_key_400:
  assumes "fst ` set (form req) \<inter> fst ` set (files req) \<noteq> {}"
  shows "\<exists>key \<in> fst ` set (form req) \<inter> fst ` set (files req).
           app srv run_t POST ''/predict'' req =
             Some (Returns \<lparr>status_code = 400, mimetype = ''application/json'',
                     body = JsonBody (PDict [(''message'',
                       Atom (AStr (''Duplicated argument name in form and files: '' @ key)))]),
                     headers = []\<rparr>, [])"
proof -
  from collect_inputs_dup [OF assms] obtain key
    where key: "key \<in> fst ` set (form req) \<inter> fst ` set (files req)"
      and c: "collect_inputs req = Inl key" by blast
  have "handle_request srv run_t req =
          (Returns \<lparr>status_code = 400, mimetype = ''application/json'',
                     body = JsonBody (PDict [(''message'',
                       Atom (AStr (''Duplicated argument name in form and files: '' @ key)))]),
                     headers = []\<rparr>, [])"
    by (simp add: handle_request_def try_body_def c abort400_eq return_or_raise_def)
  then have "app srv run_t POST ''/predict'' req = Some (Returns \<lparr>status_code = 400, mimetype = ''application/json'',
                     body = JsonBody (PDict [(''message'',
                       Atom (AStr (''Duplicated argument name in form and files: '' @ key)))]),
                     headers = []\<rparr>, [])"
    by (simp add: app_def url_map_def)
  with key show ?thesis by blast
qed

theorem duplicate_key_400_witness:
  "fst ` set (form dup_request) \<inter> fst ` set (files dup_request) \<noteq> {} \<and>
   app demo_server (AFloat ''0.25'') POST ''/predict'' dup_request =
     Some (Returns \<lparr>status_code = 400, mimetype = ''application/json'',
             body = JsonBody (PDict [(''message'',
               Atom (AStr ''Duplicated argument name in form and files: image''))]),
             headers = []\<rparr>, [])"
  using duplicate_key_400 [of dup_request demo_server "AFloat ''0.25''"]
  by (simp add: dup_request_def)

subsection \<open>The log of a request\<close>



lemma run_model_calls_append:
  "run_model_calls (xs @ ys) = run_model_calls xs @ run_model_calls ys"
  by (induction xs rule: run_model_calls.induct) simp_all



lemma run_model_calls_run_cleanups: "run_model_calls (run_cleanups cfs) = []"
  by (induction cfs) (simp_all split: option.split)





lemma try_body_validation_failed:
  assumes "predict_inputs srv = Some specs" "collect_inputs req = Inr raw_inputs"
    and "validate_and_convert_inputs srv raw_inputs [] = (Inl (InputValidationError m), cfs)"
  shows "try_body srv run_t req =
           (Returns \<lparr>status_code = 400, mimetype = ''application/json'',
               body = JsonBody (PDict [(''message'', Atom (AStr m))]), headers = []\<rparr>,
            cfs, [ValidateCalled raw_inputs])"
  using assms by (simp add: try_body_def abort400_eq return_or_raise_def)



text \<open>
  C3. With a declared schema, when the conversion raises \<^verbatim>\<open>InputValidationError\<close>
  the view returns status 400 with the message of the exception, and \<^verbatim>\<open>run_model\<close>
  is not called.
\<close>

theorem validation_error_400:
  assumes "predict_inputs srv = Some specs" "collect_inputs req = Inr raw_inputs"
    and "fst (validate_and_convert_inputs srv raw_inputs []) = Inl (InputValidationError m)"
  shows "fst (handle_request srv run_t req) =
           Returns \<lparr>status_code = 400, mimetype = ''application/json'',
               body = JsonBody (PDict [(''message'', Atom (AStr m))]), headers = []\<rparr> \<and>
         run_model_calls (snd (handle_request srv run_t req)) = []"
proof -
  obtain cfs where "validate_and_convert_inputs srv raw_inputs [] = (Inl (InputValidationError m), cfs)"
    using assms(3) by (cases "validate_and_convert_inputs srv raw_inputs []") simp
  from try_body_validation_failed [OF assms(1,2) this]
  show ?thesis
    by (simp add: handle_request_def run_model_calls_append run_model_calls_run_cleanups)
qed

theorem validation_error_400_witness:
  "predict_inputs demo_server = Some [(''text'', text_spec), (''count'', count_spec)] \<and>
   collect_inputs text_request = Inr [(''text'', Atom (AStr ''a''))] \<and>
   fst (validate_and_convert_inputs demo_server [(''text'', Atom (AStr ''a''))] []) =
     Inl (InputValidationError ''Missing required argument: count'') \<and>
   fst (handle_request demo_server (AFloat ''0.25'') text_request) =
     Returns \<lparr>status_code = 400, mimetype = ''application/json'',
         body = JsonBody (PDict [(''message'', Atom (AStr ''Missing required argument: count''))]),
         headers = []\<rparr> \<and>
   run_model_calls (snd (handle_request demo_server (AFloat ''0.25'') text_request)) = []"
proof -
  have a: "predict_inputs demo_server = Some [(''text'', text_spec), (''count'', count_spec)]"
    by (simp add: demo_server_def)
  have b: "collect_inputs text_request = Inr [(''text'', Atom (AStr ''a''))]"
    by (simp add: collect_inputs_def text_request_def)
  have c: "fst (validate_and_convert_inputs demo_server [(''text'', Atom (AStr ''a''))] []) =
     Inl (InputValidationError ''Missing required argument: count'')"
    by (simp add: demo_server_def demo_validate_def dict_mem_def)
  show ?thesis
    using validation_error_400 [OF a b c, of "AFloat ''0.25''"] a b c by simp
qed

subsection \<open>Responses\<close>

lemma lower_time_headers: "lower ''X-Setup-Time'' \<noteq> lower ''X-Run-Time''"
  by (simp add: lower_def lower_char_def)

lemma headers_get_set_time_headers:
  "headers_get (headers (set_time_headers resp setup_t run_t)) ''X-Setup-Time'' = Some (py_str setup_t) \<and>
   headers_get (headers (set_time_headers resp setup_t run_t)) ''X-Run-Time'' = Some (py_str run_t)"
proof -
  have never: "(\<lambda>x :: string \<times> string. lower (fst x) \<noteq> a \<and> lower (fst x) \<noteq> b \<and> lower (fst x) = a) = (\<lambda>x. False)"
    for a b by auto
  show ?thesis
    using lower_time_headers
    by (simp add: set_time_headers_def headers_set_def headers_get_def Let_def case_prod_beta never)
qed

lemma set_time_headers_fields:
  "status_code (set_time_headers resp a b) = status_code resp"
  "mimetype (set_time_headers resp a b) = mimetype resp"
  "body (set_time_headers resp a b) = body resp"
  by (simp_all add: set_time_headers_def Let_def)

lemma create_response_path:
  "create_response srv (Atom (APath p)) a b =
     (case disk srv p of
        None \<Rightarrow> Inl (OtherException ''FileNotFoundError'')
      | Some bytes \<Rightarrow>
          Inr (set_time_headers
                \<lparr>status_code = 200,
                 mimetype = (case guess_type srv p of
                               None \<Rightarrow> ''application/octet-stream'' | Some m \<Rightarrow> m),
                 body = FileBody bytes, headers = []\<rparr> a b))"
  by (simp add: create_response_def send_file_def split: option.split)

lemma create_response_str:
  "create_response srv (Atom (AStr s)) a b =
     Inr (set_time_headers (Response s ''text/plain'') a b)"
  by (simp add: create_response_def)

lemma create_response_other:
  assumes "\<forall>p. result \<noteq> Atom (APath p)" "\<forall>s. result \<noteq> Atom (AStr s)"
  shows "create_response srv result a b =
     (if json_serializable result
      then Inr (set_time_headers
                 \<lparr>status_code = 200, mimetype = ''application/json'', body = JsonBody result,
                  headers = []\<rparr> a b)
      else Inl (OtherException ''TypeError''))"
  using assms
  by (cases result; (cases "case result of Atom x \<Rightarrow> x | _ \<Rightarrow> ANone")?)
     (auto simp: create_response_def jsonify_def)

lemma create_response_cases:
  obtains (path) p where "result = Atom (APath p)"
  | (str) s where "result = Atom (AStr s)"
  | (other) "\<forall>p. result \<noteq> Atom (APath p)" "\<forall>s. result \<noteq> Atom (AStr s)"
  by blast

text \<open>
  C4. \<^verbatim>\<open>create_response\<close> has three branches and no other: for a path, the content
  of the file as the body (an exception when the file cannot be read); for a string, a
  \<^verbatim>\<open>text/plain\<close> response whose body is the string; for any other value, a JSON
  response whose body is the value (an exception when it is not serialisable).
\<close>

theorem create_response_dispatch:
  "(result = Atom (APath p) \<longrightarrow> disk srv p = Some bytes \<longrightarrow>
      (\<exists>resp. create_response srv result setup_t run_t = Inr resp \<and>
         status_code resp = 200 \<and> body resp = FileBody bytes)) \<and>
   (result = Atom (APath p) \<longrightarrow> disk srv p = None \<longrightarrow>
      create_response srv result setup_t run_t = Inl (OtherException ''FileNotFoundError'')) \<and>
   (result = Atom (AStr s) \<longrightarrow>
      (\<exists>resp. create_response srv result setup_t run_t = Inr resp \<and>
         status_code resp = 200 \<and> mimetype resp = ''text/plain'' \<and> body resp = TextBody s)) \<and>
   ((\<forall>p. result \<noteq> Atom (APath p)) \<longrightarrow> (\<forall>s. result \<noteq> Atom (AStr s)) \<longrightarrow>
      json_serializable result \<longrightarrow>
      (\<exists>resp. create_response srv result setup_t run_t = Inr resp \<and>
         status_code resp = 200 \<and> mimetype resp = ''application/json'' \<and>
         body resp = JsonBody result)) \<and>
   ((\<forall>p. result \<noteq> Atom (APath p)) \<longrightarrow> (\<forall>s. result \<noteq> Atom (AStr s)) \<longrightarrow>
      \<not> json_serializable result \<longrightarrow>
      create_response srv result setup_t run_t = Inl (OtherException ''TypeError''))"
  by (simp add: create_response_path create_response_str create_response_other
      set_time_headers_fields Response_def)

theorem create_response_dispatch_witness:
  "disk demo_server ''out.png'' = Some ''PNG'' \<and>
   create_response demo_server (Atom (APath ''out.png'')) (AFloat ''1.5'') (AFloat ''0.25'') =
     Inr \<lparr>status_code = 200, mimetype = ''image/png'', body = FileBody ''PNG'',
          headers = [(''X-Setup-Time'', ''1.5''), (''X-Run-Time'', ''0.25'')]\<rparr> \<and>
   disk demo_server ''gone.png'' = None \<and>
   create_response demo_server (Atom (APath ''gone.png'')) (AFloat ''1.5'') (AFloat ''0.25'') =
     Inl (OtherException ''FileNotFoundError'') \<and>
   create_response demo_server (Atom (AStr ''hello'')) (AFloat ''1.5'') (AFloat ''0.25'') =
     Inr \<lparr>status_code = 200, mimetype = ''text/plain'', body = TextBody ''hello'',
          headers = [(''X-Setup-Time'', ''1.5''), (''X-Run-Time'', ''0.25'')]\<rparr> \<and>
   json_serializable (PList [Atom (AInt 1), Atom ANone]) \<and>
   create_response demo_server (PList [Atom (AInt 1), Atom ANone]) (AFloat ''1.5'') (AFloat ''0.25'') =
     Inr \<lparr>status_code = 200, mimetype = ''application/json'',
          body = JsonBody (PList [Atom (AInt 1), Atom ANone]),
          headers = [(''X-Setup-Time'', ''1.5''), (''X-Run-Time'', ''0.25'')]\<rparr> \<and>
   \<not> json_serializable (PList [Atom (APath ''out.png'')]) \<and>
   create_response demo_server (PList [Atom (APath ''out.png'')]) (AFloat ''1.5'') (AFloat ''0.25'') =
     Inl (OtherException ''TypeError'')"
proof -
  have ev: ?thesis
    by (simp add: create_response_def send_file_def jsonify_def Response_def
        set_time_headers_def headers_set_def lower_time_headers demo_server_def demo_disk_def
        demo_guess_type_def)
  show ?thesis
    using create_response_dispatch [of "Atom (APath ''out.png'')" "''out.png''" demo_server "''PNG''"
      "AFloat ''1.5''" "AFloat ''0.25''" "''''"]
    create_response_dispatch [of "Atom (APath ''gone.png'')" "''gone.png''" demo_server "''PNG''"
      "AFloat ''1.5''" "AFloat ''0.25''" "''''"]
    create_response_dispatch [of "Atom (AStr ''hello'')" "''''" demo_server "''''"
      "AFloat ''1.5''" "AFloat ''0.25''" "''hello''"]
    create_response_dispatch [of "PList [Atom (AInt 1), Atom ANone]" "''''" demo_server "''''"
      "AFloat ''1.5''" "AFloat ''0.25''" "''''"]
    create_response_dispatch [of "PList [Atom (APath ''out.png'')]" "''''" demo_server "''''"
      "AFloat ''1.5''" "AFloat ''0.25''" "''''"]
      ev
    by simp
qed

text \<open>
  C10. The branch depends on the type of the result only: a string is answered as
  \<^verbatim>\<open>text/plain\<close> with the string as the body, also when a file of that name exists,
  and a response with the content of a file comes from a path only.
\<close>

theorem string_result_is_text:
  "(\<exists>resp. create_response srv (Atom (AStr s)) setup_t run_t = Inr resp \<and>
      mimetype resp = ''text/plain'' \<and> body resp = TextBody s) \<and>
   (\<forall>result resp bytes.
      create_response srv result setup_t run_t = Inr resp \<and> body resp = FileBody bytes \<longrightarrow>
      (\<exists>p. result = Atom (APath p)))"
proof -
  have "\<exists>p. result = Atom (APath p)"
    if "create_response srv result setup_t run_t = Inr resp" "body resp = FileBody bytes"
    for result resp bytes
  proof (cases result rule: create_response_cases)
    case (path p)
    then show ?thesis by blast
  next
    case (str s)
    with that show ?thesis
      by (auto simp: create_response_str set_time_headers_fields Response_def)
  next
    case other
    with that show ?thesis
      by (auto simp: create_response_other set_time_headers_fields split: if_splits)
  qed
  then show ?thesis
    by (simp add: create_response_str set_time_headers_fields Response_def)
qed

theorem string_result_is_text_witness:
  "disk demo_server ''out.txt'' = Some ''hello'' \<and>
   create_response demo_server (Atom (AStr ''out.txt'')) (AFloat ''1.5'') (AFloat ''0.25'') =
     Inr \<lparr>status_code = 200, mimetype = ''text/plain'', body = TextBody ''out.txt'',
          headers = [(''X-Setup-Time'', ''1.5''), (''X-Run-Time'', ''0.25'')]\<rparr> \<and>
   create_response demo_server (Atom (APath ''out.txt'')) (AFloat ''1.5'') (AFloat ''0.25'') =
     Inr \<lparr>status_code = 200, mimetype = ''application/octet-stream'', body = FileBody ''hello'',
          headers = [(''X-Setup-Time'', ''1.5''), (''X-Run-Time'', ''0.25'')]\<rparr>"
proof -
  have ev: ?thesis
    by (simp add: create_response_def send_file_def jsonify_def Response_def
        set_time_headers_def headers_set_def lower_time_headers demo_server_def demo_disk_def
        demo_guess_type_def)
  show ?thesis
    using string_result_is_text [of demo_server "''out.txt''" "AFloat ''1.5''" "AFloat ''0.25''"]
      ev
    by simp
qed

lemma create_response_headers:
  assumes "create_response srv result setup_t run_t = Inr resp"
  shows "headers_get (headers resp) ''X-Setup-Time'' = Some (py_str setup_t) \<and>
         headers_get (headers resp) ''X-Run-Time'' = Some (py_str run_t)"
proof -
  from assms obtain r0 where "resp = set_time_headers r0 setup_t run_t"
    by (auto simp: create_response_def split: sum.splits)
  then show ?thesis by (simp add: headers_get_set_time_headers)
qed

lemma invoke_Returns:
  assumes "invoke srv run_t inputs cfs = (Returns resp, cfs', evs)"
  shows "\<exists>result. create_response srv result (setup_time srv) run_t = Inr resp"
  using assms
  by (auto simp: invoke_def return_or_raise_def split: prod.splits sum.splits)

lemma handle_request_Returns:
  assumes "fst (handle_request srv run_t req) = Returns resp"
  shows "status_code resp = 400 \<or>
         (\<exists>result. create_response srv result (setup_time srv) run_t = Inr resp)"
proof -
  obtain out cfs evs where tb: "try_body srv run_t req = (out, cfs, evs)"
    by (cases "try_body srv run_t req") auto
  with assms have out: "out = Returns resp" by (simp add: handle_request_def)
  from tb [unfolded out] show ?thesis
    by (auto simp: try_body_def abort400_eq return_or_raise_def
        split: sum.splits option.splits prod.splits py_exception.splits
        dest: invoke_Returns)
qed

text \<open>
  C5. Every response \<^verbatim>\<open>create_response\<close> returns, in any of the three branches, has
  the headers \<^verbatim>\<open>X-Setup-Time\<close> and \<^verbatim>\<open>X-Run-Time\<close>, holding \<^verbatim>\<open>str\<close> of the setup
  time and of the run time; so does every response of the view other than a 400.
\<close>

theorem timing_headers:
  "(create_response srv result setup_t run_t = Inr resp \<longrightarrow>
      headers_get (headers resp) ''X-Setup-Time'' = Some (py_str setup_t) \<and>
      headers_get (headers resp) ''X-Run-Time'' = Some (py_str run_t)) \<and>
   (fst (handle_request srv run_time req) = Returns resp' \<longrightarrow> status_code resp' \<noteq> 400 \<longrightarrow>
      headers_get (headers resp') ''X-Setup-Time'' = Some (py_str (setup_time srv)) \<and>
      headers_get (headers resp') ''X-Run-Time'' = Some (py_str run_time))"
  using create_response_headers handle_request_Returns by blast

theorem timing_headers_witness:
  "create_response demo_server (PDict [(''n'', Atom (AInt 3))]) (AFloat ''1.5'') (AFloat ''0.25'') =
     Inr \<lparr>status_code = 200, mimetype = ''application/json'',
          body = JsonBody (PDict [(''n'', Atom (AInt 3))]),
          headers = [(''X-Setup-Time'', ''1.5''), (''X-Run-Time'', ''0.25'')]\<rparr> \<and>
   headers_get [(''X-Setup-Time'', ''1.5''), (''X-Run-Time'', ''0.25'')] ''X-Setup-Time'' = Some ''1.5'' \<and>
   headers_get [(''X-Setup-Time'', ''1.5''), (''X-Run-Time'', ''0.25'')] ''X-Run-Time'' = Some ''0.25'' \<and>
   fst (handle_request demo_server (AFloat ''0.25'') count_request) =
     Returns \<lparr>status_code = 200, mimetype = ''text/plain'', body = TextBody ''out.txt'',
          headers = [(''X-Setup-Time'', ''1.5''), (''X-Run-Time'', ''0.25'')]\<rparr>"
proof -
  let ?json = "\<lparr>status_code = 200, mimetype = ''application/json'',
          body = JsonBody (PDict [(''n'', Atom (AInt 3))]),
          headers = [(''X-Setup-Time'', ''1.5''), (''X-Run-Time'', ''0.25'')]\<rparr>"
  let ?text = "\<lparr>status_code = 200, mimetype = ''text/plain'', body = TextBody ''out.txt'',
          headers = [(''X-Setup-Time'', ''1.5''), (''X-Run-Time'', ''0.25'')]\<rparr>"
  have a: "create_response demo_server (PDict [(''n'', Atom (AInt 3))]) (AFloat ''1.5'') (AFloat ''0.25'') =
     Inr ?json"
    by (simp add: create_response_def jsonify_def set_time_headers_def headers_set_def
        lower_time_headers)
  have b: "fst (handle_request demo_server (AFloat ''0.25'') count_request) = Returns ?text"
    by (simp add: handle_request_def try_body_def collect_inputs_def count_request_def
        demo_server_def demo_validate_def demo_run_model_def dict_mem_def invoke_def
        create_response_def Response_def set_time_headers_def headers_set_def
        lower_time_headers return_or_raise_def)
  show ?thesis
    using timing_headers [of demo_server "PDict [(''n'', Atom (AInt 3))]" "AFloat ''1.5''"
        "AFloat ''0.25''" ?json "AFloat ''0.25''" count_request ?text] a b
    by (simp add: demo_server_def)
qed

subsection \<open>The routes\<close>

text \<open>
  C9. \<^verbatim>\<open>/infer\<close> and \<^verbatim>\<open>/predict\<close> are served by the same view for every method: a
  \<^verbatim>\<open>POST\<close> to either gives the same outcome and the same events.
\<close>

theorem infer_is_predict:
  "app srv run_t POST ''/infer'' req = app srv run_t POST ''/predict'' req \<and>
   app srv run_t POST ''/predict'' req = Some (handle_request srv run_t req) \<and>
   (\<forall>m. url_map m ''/infer'' = url_map m ''/predict'')"
  by (simp add: app_def url_map_def)

subsection \<open>The help document\<close>

text \<open>
  C8. When \<^verbatim>\<open>predict\<close> has no \<^verbatim>\<open>_inputs\<close>, a \<^verbatim>\<open>GET\<close> of \<^verbatim>\<open>/help\<close> returns status
  200 with the JSON body \<^verbatim>\<open>{"arguments": {}}\<close>, and the log is empty: nothing outside
  the view was called.
\<close>

theorem help_without_schema:
  assumes "predict_inputs srv = None"
  shows "app srv run_t GET ''/help'' req =
           Some (Returns \<lparr>status_code = 200, mimetype = ''application/json'',
                   body = JsonBody (PDict [(''arguments'', PDict [])]), headers = []\<rparr>, [])"
  using assms by (simp add: app_def url_map_def help_view_def jsonify_def return_or_raise_def)

theorem help_without_schema_witness:
  "predict_inputs plain_server = None \<and>
   app plain_server (AFloat ''0.25'') GET ''/help'' \<lparr>form = [], files = []\<rparr> =
     Some (Returns \<lparr>status_code = 200, mimetype = ''application/json'',
             body = JsonBody (PDict [(''arguments'', PDict [])]), headers = []\<rparr>, [])"
proof -
  have a: "predict_inputs plain_server = None"
    by (simp add: plain_server_def)
  show ?thesis
    using help_without_schema [OF a, of "AFloat ''0.25''" "\<lparr>form = [], files = []\<rparr>"] a
    by simp
qed

lemma help_args_append:
  "distinct (map fst specs) \<Longrightarrow> fst ` set specs \<inter> fst ` set args = {} \<Longrightarrow>
   help_args srv specs args = args @ map (\<lambda>(name, spec). (name, PDict (help_arg srv spec))) specs"
proof (induction specs arbitrary: args)
  case Nil
  show ?case by simp
next
  case (Cons ns specs)
  obtain name spec where ns: "ns = (name, spec)" by (cases ns)
  from Cons.prems ns have fresh: "name \<notin> fst ` set args" by auto
  have "fst ` set specs \<inter> fst ` set (args @ [(name, PDict (help_arg srv spec))]) = {}"
    using Cons.prems ns by auto
  moreover have "distinct (map fst specs)" using Cons.prems by simp
  ultimately show ?case
    using Cons.IH [of "args @ [(name, PDict (help_arg srv spec))]"] ns fresh
    by (simp add: dict_set_fresh)
qed

lemma help_args_eq:
  "distinct (map fst specs) \<Longrightarrow>
   help_args srv specs [] = map (\<lambda>(name, spec). (name, PDict (help_arg srv spec))) specs"
  using help_args_append [of specs "[]" srv] by simp



lemma help_arg_default:
  "map_of (help_arg srv spec) ''default'' =
     (case spec_default spec of
        UNSPECIFIED \<Rightarrow> None
      | Default d \<Rightarrow> Some (Atom (AStr (py_str d))))"
  by (simp add: help_arg_def Let_def split: option.split default_value.split)




lemma help_arg_serializable: "json_serializable (PDict (help_arg srv spec))"
  by (simp add: help_arg_def Let_def list_all_iff split: option.split default_value.split)

lemma help_view_eq:
  assumes "predict_inputs srv = Some specs" "distinct (map fst specs)"
  shows "help_view srv =
           (Returns \<lparr>status_code = 200, mimetype = ''application/json'',
              body = JsonBody (PDict [(''arguments'',
                PDict (map (\<lambda>(name, spec). (name, PDict (help_arg srv spec))) specs))]),
              headers = []\<rparr>, [])"
proof -
  have "list_all (\<lambda>kv. json_serializable (snd kv))
          (map (\<lambda>(name, spec). (name, PDict (help_arg srv spec))) specs)"
    using help_arg_serializable by (simp add: list_all_iff case_prod_beta)
  then show ?thesis
    using assms by (simp add: help_view_def help_args_eq jsonify_def return_or_raise_def)
qed

lemma map_of_help_args:
  assumes "distinct (map fst specs)" "(name, spec) \<in> set specs"
  shows "map_of (map (\<lambda>(name, spec). (name, PDict (help_arg srv spec))) specs) name =
           Some (PDict (help_arg srv spec))"
proof -
  have "map_of specs name = Some spec" using assms by simp
  then show ?thesis
    by (simp add: map_of_map)
qed

lemma string_of_int_examples:
  "string_of_int 0 = ''0''" "string_of_int 5 = ''5''" "string_of_int 10 = ''10''"
  by code_simp+

lemma demo_help_view:
  "app demo_server (AFloat ''0.25'') GET ''/help'' \<lparr>form = [], files = []\<rparr> =
     Some (Returns \<lparr>status_code = 200, mimetype = ''application/json'',
       body = JsonBody (PDict [(''arguments'', PDict
         [(''text'', PDict [(''type'', Atom (AStr ''str'')),
                            (''help'', Atom (AStr ''Text to echo'')),
                            (''default'', Atom (AStr ''''))]),
          (''count'', PDict [(''type'', Atom (AStr ''int'')),
                             (''min'', Atom (AStr ''0'')),
                             (''max'', Atom (AStr ''10'')),
                             (''options'', PList [Atom (AStr ''0''), Atom (AStr ''5''),
                                                  Atom (AStr ''10'')])])])]),
       headers = []\<rparr>, [])"
  by (simp add: app_def url_map_def help_view_def help_arg_def demo_server_def text_spec_def
      count_spec_def demo_type_name_def jsonify_def return_or_raise_def string_of_int_examples)

text \<open>
  C6. The schema is a \<^verbatim>\<open>dict\<close>, so its keys are distinct. For a field of the schema,
  the entry of the help document has the key
  \<^verbatim>\<open>default\<close> exactly when the default is not \<^verbatim>\<open>UNSPECIFIED\<close>, and then its value
  is \<^verbatim>\<open>str\<close> of the default; the empty string as default gives \<^verbatim>\<open>"default": ""\<close>.
\<close>

theorem help_default_key:
  assumes "predict_inputs srv = Some specs" "distinct (map fst specs)" "(name, spec) \<in> set specs"
  shows "\<exists>args arg.
           app srv run_t GET ''/help'' req =
             Some (Returns \<lparr>status_code = 200, mimetype = ''application/json'',
                     body = JsonBody (PDict [(''arguments'', PDict args)]), headers = []\<rparr>, []) \<and>
           map_of args name = Some (PDict arg) \<and>
           (''default'' \<in> fst ` set arg) = (spec_default spec \<noteq> UNSPECIFIED) \<and>
           map_of arg ''default'' =
             (case spec_default spec of
                UNSPECIFIED \<Rightarrow> None
              | Default d \<Rightarrow> Some (Atom (AStr (py_str d)))) \<and>
           (spec_default spec = Default (AStr '''') \<longrightarrow>
              map_of arg ''default'' = Some (Atom (AStr '''')))"
proof -
  let ?args = "map (\<lambda>(name, spec). (name, PDict (help_arg srv spec))) specs"
  let ?arg = "help_arg srv spec"
  have "app srv run_t GET ''/help'' req =
          Some (Returns \<lparr>status_code = 200, mimetype = ''application/json'',
                  body = JsonBody (PDict [(''arguments'', PDict ?args)]), headers = []\<rparr>, [])"
    using help_view_eq [OF assms(1,2)] by (simp add: app_def url_map_def)
  moreover have "map_of ?args name = Some (PDict ?arg)"
    using map_of_help_args [OF assms(2,3)] .
  moreover have "(''default'' \<in> fst ` set ?arg) = (spec_default spec \<noteq> UNSPECIFIED)"
    using help_arg_default [of srv spec] map_of_eq_None_iff [of ?arg "''default''"]
    by (cases "spec_default spec") auto
  moreover have "spec_default spec = Default (AStr '''') \<longrightarrow>
      map_of ?arg ''default'' = Some (Atom (AStr ''''))"
    by (simp add: help_arg_default)
  ultimately show ?thesis
    using help_arg_default [of srv spec] by blast
qed

theorem help_default_key_witness:
  "predict_inputs demo_server = Some [(''text'', text_spec), (''count'', count_spec)] \<and>
   distinct (map fst [(''text'', text_spec), (''count'', count_spec)]) \<and>
   (''text'', text_spec) \<in> set [(''text'', text_spec), (''count'', count_spec)] \<and>
   spec_default text_spec = Default (AStr '''') \<and>
   spec_default count_spec = UNSPECIFIED \<and>
   app demo_server (AFloat ''0.25'') GET ''/help'' \<lparr>form = [], files = []\<rparr> =
     Some (Returns \<lparr>status_code = 200, mimetype = ''application/json'',
       body = JsonBody (PDict [(''arguments'', PDict
         [(''text'', PDict [(''type'', Atom (AStr ''str'')),
                            (''help'', Atom (AStr ''Text to echo'')),
                            (''default'', Atom (AStr ''''))]),
          (''count'', PDict [(''type'', Atom (AStr ''int'')),
                             (''min'', Atom (AStr ''0'')),
                             (''max'', Atom (AStr ''10'')),
                             (''options'', PList [Atom (AStr ''0''), Atom (AStr ''5''),
                                                  Atom (AStr ''10'')])])])]),
       headers = []\<rparr>, [])"
proof -
  have a: "predict_inputs demo_server = Some [(''text'', text_spec), (''count'', count_spec)]"
    by (simp add: demo_server_def)
  have b: "distinct (map fst [(''text'', text_spec), (''count'', count_spec)])"
    by simp
  have c: "(''text'', text_spec) \<in> set [(''text'', text_spec), (''count'', count_spec)]"
    by simp
  have d: "spec_default text_spec = Default (AStr '''') \<and> spec_default count_spec = UNSPECIFIED"
    by (simp add: text_spec_def count_spec_def)
  show ?thesis
    using help_default_key [OF a b c, of "AFloat ''0.25''" "\<lparr>form = [], files = []\<rparr>"]
      a b c d demo_help_view
    by simp
qed




end
